theory Spec2Isabelle
  imports Complex_Main "HOL-Library.AList"
begin

section \<open>Values, exceptions and interpreter primitives\<close>

text \<open>
  The server of \<^verbatim>\<open>TCP_loan_server.py\<close> works on the values that \<^verbatim>\<open>json.loads\<close>
  produces. They are modelled by one datatype; the type parameter \<open>'f\<close> is the type of
  Python floats. A Python \<^verbatim>\<open>dict\<close> is an association list in insertion order, read with
  \<open>map_of\<close>. A byte string is a HOL string, whose characters are the 256 byte values.
\<close>

datatype 'f json =
    JNull
  | JBool bool
  | JInt int
  | JFloat 'f
  | JStr string
  | JArr "'f json list"
  | JObj "(string \<times> 'f json) list"

type_synonym 'f dict = "(string \<times> 'f json) list"

text \<open>
  Exceptions are values. \<open>ValueError\<close> carries its message, \<open>KeyError\<close> the
  missing key; the other classes get their message from the interpreter.
\<close>

datatype py_error =
    AttributeError
  | KeyError string
  | TypeError
  | ValueError string
  | OverflowError
  | ZeroDivisionError
  | IncompleteReadError
  | StructError

text \<open>
  What the interpreter computes below the source is a parameter of the model: the IEEE
  operations on floats, the parsing of numeric strings, the text of \<^verbatim>\<open>str(v)\<close> for a
  value that is not a string, and the message of an exception raised by the interpreter.
  Every statement with a free \<open>P\<close> holds for each such interpretation.
\<close>

record 'f py_prims =
  f_is_zero :: "'f \<Rightarrow> bool"
  f_int_fits :: "int \<Rightarrow> bool"
  f_of_int :: "int \<Rightarrow> 'f"
  f_of_str :: "string \<Rightarrow> py_error + 'f"
  f_to_int :: "'f \<Rightarrow> py_error + int"
  i_of_str :: "string \<Rightarrow> py_error + int"
  f_add :: "'f \<Rightarrow> 'f \<Rightarrow> 'f"
  f_sub :: "'f \<Rightarrow> 'f \<Rightarrow> 'f"
  f_mul :: "'f \<Rightarrow> 'f \<Rightarrow> 'f"
  f_div :: "'f \<Rightarrow> 'f \<Rightarrow> 'f"
  f_pow :: "'f \<Rightarrow> int \<Rightarrow> py_error + 'f"
  f_round2 :: "'f \<Rightarrow> 'f"
  py_repr :: "'f json \<Rightarrow> string"
  exc_text :: "py_error \<Rightarrow> string"

text \<open>Sequencing of computations that may raise: the first exception wins.\<close>

definition exc_bind :: "py_error + 'a \<Rightarrow> ('a \<Rightarrow> py_error + 'b) \<Rightarrow> py_error + 'b" where
  "exc_bind m k = (case m of Inl e \<Rightarrow> Inl e | Inr x \<Rightarrow> k x)"

text \<open>Truth value of a Python object, and \<^verbatim>\<open>a or b\<close>.\<close>

definition py_truthy :: "'f py_prims \<Rightarrow> 'f json \<Rightarrow> bool" where
  "py_truthy P v =
     (case v of
        JNull \<Rightarrow> False
      | JBool b \<Rightarrow> b
      | JInt n \<Rightarrow> n \<noteq> 0
      | JFloat x \<Rightarrow> \<not> f_is_zero P x
      | JStr s \<Rightarrow> s \<noteq> []
      | JArr xs \<Rightarrow> xs \<noteq> []
      | JObj kvs \<Rightarrow> kvs \<noteq> [])"

definition py_or :: "'f py_prims \<Rightarrow> 'f json \<Rightarrow> 'f json \<Rightarrow> 'f json" where
  "py_or P a b = (if py_truthy P a then a else b)"

text \<open>\<^verbatim>\<open>d.get(k)\<close> (\<^verbatim>\<open>None\<close> when absent) and \<^verbatim>\<open>d[k]\<close> (\<^verbatim>\<open>KeyError\<close> when absent).\<close>

definition py_get :: "'f dict \<Rightarrow> string \<Rightarrow> 'f json" where
  "py_get d k = (case map_of d k of None \<Rightarrow> JNull | Some v \<Rightarrow> v)"

definition py_getitem :: "'f dict \<Rightarrow> string \<Rightarrow> py_error + 'f json" where
  "py_getitem d k = (case map_of d k of None \<Rightarrow> Inl (KeyError k) | Some v \<Rightarrow> Inr v)"

text \<open>\<^verbatim>\<open>d.pop(k, default)\<close>: the value and the dict without the key.\<close>

definition py_pop :: "'f dict \<Rightarrow> string \<Rightarrow> 'f json \<Rightarrow> 'f json \<times> 'f dict" where
  "py_pop d k dflt =
     (case map_of d k of None \<Rightarrow> (dflt, d) | Some v \<Rightarrow> (v, AList.delete k d))"

text \<open>\<^verbatim>\<open>str(v)\<close>, \<^verbatim>\<open>float(v)\<close> and \<^verbatim>\<open>int(v)\<close> on a decoded value (\<^verbatim>\<open>bool\<close> is a subclass of \<^verbatim>\<open>int\<close>).\<close>

definition py_str :: "'f py_prims \<Rightarrow> 'f json \<Rightarrow> string" where
  "py_str P v = (case v of JStr s \<Rightarrow> s | _ \<Rightarrow> py_repr P v)"

definition py_float_of_int :: "'f py_prims \<Rightarrow> int \<Rightarrow> py_error + 'f" where
  "py_float_of_int P n = (if f_int_fits P n then Inr (f_of_int P n) else Inl OverflowError)"

definition py_float :: "'f py_prims \<Rightarrow> 'f json \<Rightarrow> py_error + 'f" where
  "py_float P v =
     (case v of
        JFloat x \<Rightarrow> Inr x
      | JInt n \<Rightarrow> py_float_of_int P n
      | JBool b \<Rightarrow> Inr (f_of_int P (if b then 1 else 0))
      | JStr s \<Rightarrow> f_of_str P s
      | _ \<Rightarrow> Inl TypeError)"

definition py_int :: "'f py_prims \<Rightarrow> 'f json \<Rightarrow> py_error + int" where
  "py_int P v =
     (case v of
        JInt n \<Rightarrow> Inr n
      | JBool b \<Rightarrow> Inr (if b then 1 else 0)
      | JFloat x \<Rightarrow> f_to_int P x
      | JStr s \<Rightarrow> i_of_str P s
      | _ \<Rightarrow> Inl TypeError)"

text \<open>
  \<^verbatim>\<open>str(e)\<close> for an exception: the message; for a \<^verbatim>\<open>KeyError\<close> the quoted key (the keys
  of the source are plain identifiers).
\<close>

definition exc_str :: "'f py_prims \<Rightarrow> py_error \<Rightarrow> string" where
  "exc_str P e =
     (case e of
        KeyError k \<Rightarrow> [CHR 0x27] @ k @ [CHR 0x27]
      | ValueError m \<Rightarrow> m
      | _ \<Rightarrow> exc_text P e)"

text \<open>
  A \<^verbatim>\<open>str\<close> is represented by its UTF-8 encoding, the bytes that \<^verbatim>\<open>.encode("utf-8")\<close> and
  \<^verbatim>\<open>data.decode("utf-8")\<close> convert to and from: an ASCII character is one byte, any other
  character two to four bytes. A lone surrogate, which a JSON escape can put into a
  \<^verbatim>\<open>str\<close>, takes the three bytes that the same scheme gives it. \<open>utf8_decode\<close> reads the
  code points back and answers \<open>None\<close> on a byte sequence that encodes no \<^verbatim>\<open>str\<close>.
\<close>

definition utf8_encode_cp :: "nat \<Rightarrow> string" where
  "utf8_encode_cp c =
     (if c < 0x80 then [char_of c]
      else if c < 0x800 then [char_of (0xC0 + c div 64), char_of (0x80 + c mod 64)]
      else if c < 0x10000 then
        [char_of (0xE0 + c div 4096), char_of (0x80 + c div 64 mod 64), char_of (0x80 + c mod 64)]
      else
        [char_of (0xF0 + c div 262144), char_of (0x80 + c div 4096 mod 64),
         char_of (0x80 + c div 64 mod 64), char_of (0x80 + c mod 64)])"

definition utf8_encode :: "nat list \<Rightarrow> string" where
  "utf8_encode cps = concat (map utf8_encode_cp cps)"

text \<open>
  \<open>decode_from k lo acc\<close> reads a byte sequence of which \<open>k\<close> continuation bytes of the
  current character are still to come; \<open>acc\<close> holds the bits read so far and \<open>lo\<close> is the
  least code point that may take this many bytes.
\<close>

fun decode_from :: "nat \<Rightarrow> nat \<Rightarrow> nat \<Rightarrow> string \<Rightarrow> nat list option" where
  "decode_from k lo acc [] = (if k = 0 then Some [] else None)"
| "decode_from k lo acc (b # r) =
     (let n = (of_char b :: nat) in
      if k = 0 then
        (if n < 0x80 then map_option ((#) n) (decode_from 0 0 0 r)
         else if 0xC2 \<le> n \<and> n < 0xE0 then decode_from 1 0x80 (n - 0xC0) r
         else if 0xE0 \<le> n \<and> n < 0xF0 then decode_from 2 0x800 (n - 0xE0) r
         else if 0xF0 \<le> n \<and> n < 0xF5 then decode_from 3 0x10000 (n - 0xF0) r
         else None)
      else if 0x80 \<le> n \<and> n < 0xC0 then
        (let c = acc * 64 + (n - 0x80) in
         if k = 1 then
           (if lo \<le> c \<and> c < 0x110000 then map_option ((#) c) (decode_from 0 0 0 r) else None)
         else decode_from (k - 1) lo c r)
      else None)"

definition utf8_decode :: "string \<Rightarrow> nat list option" where
  "utf8_decode s = decode_from 0 0 0 s"

text \<open>
  \<^verbatim>\<open>s.upper()\<close> replaces every character by its full uppercase mapping, which may be
  several characters, whatever its neighbours are. For an ASCII character this is the
  capital of a letter; for the others it is the mapping of the Unicode character
  database (version 14.0, the one of CPython 3.11), listed here in two tables: the
  characters with a mapping of more than one character, and the runs of characters
  \<open>lo, lo + step, \<dots>, hi\<close> mapped to \<open>img, img + step, \<dots>\<close>. Every other
  character is its own uppercase. \<^verbatim>\<open>upper\<close> exists on strings only.
\<close>

definition ascii_upper :: "char \<Rightarrow> char" where
  "ascii_upper c =
     (let n = (of_char c :: nat) in if 97 \<le> n \<and> n \<le> 122 then char_of (n - 32) else c)"

definition upper_special :: "(nat \<times> nat list) list" where
  "upper_special =
    [(0x00DF, [0x0053, 0x0053]), (0x0149, [0x02BC, 0x004E]), (0x01F0, [0x004A, 0x030C]),
     (0x0390, [0x0399, 0x0308, 0x0301]), (0x03B0, [0x03A5, 0x0308, 0x0301]), (0x0587, [0x0535, 0x0552]),
     (0x1E96, [0x0048, 0x0331]), (0x1E97, [0x0054, 0x0308]), (0x1E98, [0x0057, 0x030A]),
     (0x1E99, [0x0059, 0x030A]), (0x1E9A, [0x0041, 0x02BE]), (0x1F50, [0x03A5, 0x0313]),
     (0x1F52, [0x03A5, 0x0313, 0x0300]), (0x1F54, [0x03A5, 0x0313, 0x0301]), (0x1F56, [0x03A5, 0x0313, 0x0342]),
     (0x1F80, [0x1F08, 0x0399]), (0x1F81, [0x1F09, 0x0399]), (0x1F82, [0x1F0A, 0x0399]),
     (0x1F83, [0x1F0B, 0x0399]), (0x1F84, [0x1F0C, 0x0399]), (0x1F85, [0x1F0D, 0x0399]),
     (0x1F86, [0x1F0E, 0x0399]), (0x1F87, [0x1F0F, 0x0399]), (0x1F88, [0x1F08, 0x0399]),
     (0x1F89, [0x1F09, 0x0399]), (0x1F8A, [0x1F0A, 0x0399]), (0x1F8B, [0x1F0B, 0x0399]),
     (0x1F8C, [0x1F0C, 0x0399]), (0x1F8D, [0x1F0D, 0x0399]), (0x1F8E, [0x1F0E, 0x0399]),
     (0x1F8F, [0x1F0F, 0x0399]), (0x1F90, [0x1F28, 0x0399]), (0x1F91, [0x1F29, 0x0399]),
     (0x1F92, [0x1F2A, 0x0399]), (0x1F93, [0x1F2B, 0x0399]), (0x1F94, [0x1F2C, 0x0399]),
     (0x1F95, [0x1F2D, 0x0399]), (0x1F96, [0x1F2E, 0x0399]), (0x1F97, [0x1F2F, 0x0399]),
     (0x1F98, [0x1F28, 0x0399]), (0x1F99, [0x1F29, 0x0399]), (0x1F9A, [0x1F2A, 0x0399]),
     (0x1F9B, [0x1F2B, 0x0399]), (0x1F9C, [0x1F2C, 0x0399]), (0x1F9D, [0x1F2D, 0x0399]),
     (0x1F9E, [0x1F2E, 0x0399]), (0x1F9F, [0x1F2F, 0x0399]), (0x1FA0, [0x1F68, 0x0399]),
     (0x1FA1, [0x1F69, 0x0399]), (0x1FA2, [0x1F6A, 0x0399]), (0x1FA3, [0x1F6B, 0x0399]),
     (0x1FA4, [0x1F6C, 0x0399]), (0x1FA5, [0x1F6D, 0x0399]), (0x1FA6, [0x1F6E, 0x0399]),
     (0x1FA7, [0x1F6F, 0x0399]), (0x1FA8, [0x1F68, 0x0399]), (0x1FA9, [0x1F69, 0x0399]),
     (0x1FAA, [0x1F6A, 0x0399]), (0x1FAB, [0x1F6B, 0x0399]), (0x1FAC, [0x1F6C, 0x0399]),
     (0x1FAD, [0x1F6D, 0x0399]), (0x1FAE, [0x1F6E, 0x0399]), (0x1FAF, [0x1F6F, 0x0399]),
     (0x1FB2, [0x1FBA, 0x0399]), (0x1FB3, [0x0391, 0x0399]), (0x1FB4, [0x0386, 0x0399]),
     (0x1FB6, [0x0391, 0x0342]), (0x1FB7, [0x0391, 0x0342, 0x0399]), (0x1FBC, [0x0391, 0x0399]),
     (0x1FC2, [0x1FCA, 0x0399]), (0x1FC3, [0x0397, 0x0399]), (0x1FC4, [0x0389, 0x0399]),
     (0x1FC6, [0x0397, 0x0342]), (0x1FC7, [0x0397, 0x0342, 0x0399]), (0x1FCC, [0x0397, 0x0399]),
     (0x1FD2, [0x0399, 0x0308, 0x0300]), (0x1FD3, [0x0399, 0x0308, 0x0301]), (0x1FD6, [0x0399, 0x0342]),
     (0x1FD7, [0x0399, 0x0308, 0x0342]), (0x1FE2, [0x03A5, 0x0308, 0x0300]), (0x1FE3, [0x03A5, 0x0308, 0x0301]),
     (0x1FE4, [0x03A1, 0x0313]), (0x1FE6, [0x03A5, 0x0342]), (0x1FE7, [0x03A5, 0x0308, 0x0342]),
     (0x1FF2, [0x1FFA, 0x0399]), (0x1FF3, [0x03A9, 0x0399]), (0x1FF4, [0x038F, 0x0399]),
     (0x1FF6, [0x03A9, 0x0342]), (0x1FF7, [0x03A9, 0x0342, 0x0399]), (0x1FFC, [0x03A9, 0x0399]),
     (0xFB00, [0x0046, 0x0046]), (0xFB01, [0x0046, 0x0049]), (0xFB02, [0x0046, 0x004C]),
     (0xFB03, [0x0046, 0x0046, 0x0049]), (0xFB04, [0x0046, 0x0046, 0x004C]), (0xFB05, [0x0053, 0x0054]),
     (0xFB06, [0x0053, 0x0054]), (0xFB13, [0x0544, 0x0546]), (0xFB14, [0x0544, 0x0535]),
     (0xFB15, [0x0544, 0x053B]), (0xFB16, [0x054E, 0x0546]), (0xFB17, [0x0544, 0x053D])]"

definition upper_ranges :: "(nat \<times> nat \<times> nat \<times> nat) list" where
  "upper_ranges =
    [(0x00B5, 0x00B5, 1, 0x039C), (0x00E0, 0x00F6, 1, 0x00C0), (0x00F8, 0x00FE, 1, 0x00D8),
     (0x00FF, 0x00FF, 1, 0x0178), (0x0101, 0x012F, 2, 0x0100), (0x0131, 0x0131, 1, 0x0049),
     (0x0133, 0x0137, 2, 0x0132), (0x013A, 0x0148, 2, 0x0139), (0x014B, 0x0177, 2, 0x014A),
     (0x017A, 0x017E, 2, 0x0179), (0x017F, 0x017F, 1, 0x0053), (0x0180, 0x0180, 1, 0x0243),
     (0x0183, 0x0185, 2, 0x0182), (0x0188, 0x0188, 1, 0x0187), (0x018C, 0x018C, 1, 0x018B),
     (0x0192, 0x0192, 1, 0x0191), (0x0195, 0x0195, 1, 0x01F6), (0x0199, 0x0199, 1, 0x0198),
     (0x019A, 0x019A, 1, 0x023D), (0x019E, 0x019E, 1, 0x0220), (0x01A1, 0x01A5, 2, 0x01A0),
     (0x01A8, 0x01A8, 1, 0x01A7), (0x01AD, 0x01AD, 1, 0x01AC), (0x01B0, 0x01B0, 1, 0x01AF),
     (0x01B4, 0x01B6, 2, 0x01B3), (0x01B9, 0x01B9, 1, 0x01B8), (0x01BD, 0x01BD, 1, 0x01BC),
     (0x01BF, 0x01BF, 1, 0x01F7), (0x01C5, 0x01C5, 1, 0x01C4), (0x01C6, 0x01C6, 1, 0x01C4),
     (0x01C8, 0x01C8, 1, 0x01C7), (0x01C9, 0x01C9, 1, 0x01C7), (0x01CB, 0x01CB, 1, 0x01CA),
     (0x01CC, 0x01CC, 1, 0x01CA), (0x01CE, 0x01DC, 2, 0x01CD), (0x01DD, 0x01DD, 1, 0x018E),
     (0x01DF, 0x01EF, 2, 0x01DE), (0x01F2, 0x01F2, 1, 0x01F1), (0x01F3, 0x01F3, 1, 0x01F1),
     (0x01F5, 0x01F5, 1, 0x01F4), (0x01F9, 0x021F, 2, 0x01F8), (0x0223, 0x0233, 2, 0x0222),
     (0x023C, 0x023C, 1, 0x023B), (0x023F, 0x0240, 1, 0x2C7E), (0x0242, 0x0242, 1, 0x0241),
     (0x0247, 0x024F, 2, 0x0246), (0x0250, 0x0250, 1, 0x2C6F), (0x0251, 0x0251, 1, 0x2C6D),
     (0x0252, 0x0252, 1, 0x2C70), (0x0253, 0x0253, 1, 0x0181), (0x0254, 0x0254, 1, 0x0186),
     (0x0256, 0x0257, 1, 0x0189), (0x0259, 0x0259, 1, 0x018F), (0x025B, 0x025B, 1, 0x0190),
     (0x025C, 0x025C, 1, 0xA7AB), (0x0260, 0x0260, 1, 0x0193), (0x0261, 0x0261, 1, 0xA7AC),
     (0x0263, 0x0263, 1, 0x0194), (0x0265, 0x0265, 1, 0xA78D), (0x0266, 0x0266, 1, 0xA7AA),
     (0x0268, 0x0268, 1, 0x0197), (0x0269, 0x0269, 1, 0x0196), (0x026A, 0x026A, 1, 0xA7AE),
     (0x026B, 0x026B, 1, 0x2C62), (0x026C, 0x026C, 1, 0xA7AD), (0x026F, 0x026F, 1, 0x019C),
     (0x0271, 0x0271, 1, 0x2C6E), (0x0272, 0x0272, 1, 0x019D), (0x0275, 0x0275, 1, 0x019F),
     (0x027D, 0x027D, 1, 0x2C64), (0x0280, 0x0280, 1, 0x01A6), (0x0282, 0x0282, 1, 0xA7C5),
     (0x0283, 0x0283, 1, 0x01A9), (0x0287, 0x0287, 1, 0xA7B1), (0x0288, 0x0288, 1, 0x01AE),
     (0x0289, 0x0289, 1, 0x0244), (0x028A, 0x028B, 1, 0x01B1), (0x028C, 0x028C, 1, 0x0245),
     (0x0292, 0x0292, 1, 0x01B7), (0x029D, 0x029D, 1, 0xA7B2), (0x029E, 0x029E, 1, 0xA7B0),
     (0x0345, 0x0345, 1, 0x0399), (0x0371, 0x0373, 2, 0x0370), (0x0377, 0x0377, 1, 0x0376),
     (0x037B, 0x037D, 1, 0x03FD), (0x03AC, 0x03AC, 1, 0x0386), (0x03AD, 0x03AF, 1, 0x0388),
     (0x03B1, 0x03C1, 1, 0x0391), (0x03C2, 0x03C2, 1, 0x03A3), (0x03C3, 0x03CB, 1, 0x03A3),
     (0x03CC, 0x03CC, 1, 0x038C), (0x03CD, 0x03CE, 1, 0x038E), (0x03D0, 0x03D0, 1, 0x0392),
     (0x03D1, 0x03D1, 1, 0x0398), (0x03D5, 0x03D5, 1, 0x03A6), (0x03D6, 0x03D6, 1, 0x03A0),
     (0x03D7, 0x03D7, 1, 0x03CF), (0x03D9, 0x03EF, 2, 0x03D8), (0x03F0, 0x03F0, 1, 0x039A),
     (0x03F1, 0x03F1, 1, 0x03A1), (0x03F2, 0x03F2, 1, 0x03F9), (0x03F3, 0x03F3, 1, 0x037F),
     (0x03F5, 0x03F5, 1, 0x0395), (0x03F8, 0x03F8, 1, 0x03F7), (0x03FB, 0x03FB, 1, 0x03FA),
     (0x0430, 0x044F, 1, 0x0410), (0x0450, 0x045F, 1, 0x0400), (0x0461, 0x0481, 2, 0x0460),
     (0x048B, 0x04BF, 2, 0x048A), (0x04C2, 0x04CE, 2, 0x04C1), (0x04CF, 0x04CF, 1, 0x04C0),
     (0x04D1, 0x052F, 2, 0x04D0), (0x0561, 0x0586, 1, 0x0531), (0x10D0, 0x10FA, 1, 0x1C90),
     (0x10FD, 0x10FF, 1, 0x1CBD), (0x13F8, 0x13FD, 1, 0x13F0), (0x1C80, 0x1C80, 1, 0x0412),
     (0x1C81, 0x1C81, 1, 0x0414), (0x1C82, 0x1C82, 1, 0x041E), (0x1C83, 0x1C84, 1, 0x0421),
     (0x1C85, 0x1C85, 1, 0x0422), (0x1C86, 0x1C86, 1, 0x042A), (0x1C87, 0x1C87, 1, 0x0462),
     (0x1C88, 0x1C88, 1, 0xA64A), (0x1D79, 0x1D79, 1, 0xA77D), (0x1D7D, 0x1D7D, 1, 0x2C63),
     (0x1D8E, 0x1D8E, 1, 0xA7C6), (0x1E01, 0x1E95, 2, 0x1E00), (0x1E9B, 0x1E9B, 1, 0x1E60),
     (0x1EA1, 0x1EFF, 2, 0x1EA0), (0x1F00, 0x1F07, 1, 0x1F08), (0x1F10, 0x1F15, 1, 0x1F18),
     (0x1F20, 0x1F27, 1, 0x1F28), (0x1F30, 0x1F37, 1, 0x1F38), (0x1F40, 0x1F45, 1, 0x1F48),
     (0x1F51, 0x1F57, 2, 0x1F59), (0x1F60, 0x1F67, 1, 0x1F68), (0x1F70, 0x1F71, 1, 0x1FBA),
     (0x1F72, 0x1F75, 1, 0x1FC8), (0x1F76, 0x1F77, 1, 0x1FDA), (0x1F78, 0x1F79, 1, 0x1FF8),
     (0x1F7A, 0x1F7B, 1, 0x1FEA), (0x1F7C, 0x1F7D, 1, 0x1FFA), (0x1FB0, 0x1FB1, 1, 0x1FB8),
     (0x1FBE, 0x1FBE, 1, 0x0399), (0x1FD0, 0x1FD1, 1, 0x1FD8), (0x1FE0, 0x1FE1, 1, 0x1FE8),
     (0x1FE5, 0x1FE5, 1, 0x1FEC), (0x214E, 0x214E, 1, 0x2132), (0x2170, 0x217F, 1, 0x2160),
     (0x2184, 0x2184, 1, 0x2183), (0x24D0, 0x24E9, 1, 0x24B6), (0x2C30, 0x2C5F, 1, 0x2C00),
     (0x2C61, 0x2C61, 1, 0x2C60), (0x2C65, 0x2C65, 1, 0x023A), (0x2C66, 0x2C66, 1, 0x023E),
     (0x2C68, 0x2C6C, 2, 0x2C67), (0x2C73, 0x2C73, 1, 0x2C72), (0x2C76, 0x2C76, 1, 0x2C75),
     (0x2C81, 0x2CE3, 2, 0x2C80), (0x2CEC, 0x2CEE, 2, 0x2CEB), (0x2CF3, 0x2CF3, 1, 0x2CF2),
     (0x2D00, 0x2D25, 1, 0x10A0), (0x2D27, 0x2D27, 1, 0x10C7), (0x2D2D, 0x2D2D, 1, 0x10CD),
     (0xA641, 0xA66D, 2, 0xA640), (0xA681, 0xA69B, 2, 0xA680), (0xA723, 0xA72F, 2, 0xA722),
     (0xA733, 0xA76F, 2, 0xA732), (0xA77A, 0xA77C, 2, 0xA779), (0xA77F, 0xA787, 2, 0xA77E),
     (0xA78C, 0xA78C, 1, 0xA78B), (0xA791, 0xA793, 2, 0xA790), (0xA794, 0xA794, 1, 0xA7C4),
     (0xA797, 0xA7A9, 2, 0xA796), (0xA7B5, 0xA7C3, 2, 0xA7B4), (0xA7C8, 0xA7CA, 2, 0xA7C7),
     (0xA7D1, 0xA7D1, 1, 0xA7D0), (0xA7D7, 0xA7D9, 2, 0xA7D6), (0xA7F6, 0xA7F6, 1, 0xA7F5),
     (0xAB53, 0xAB53, 1, 0xA7B3), (0xAB70, 0xABBF, 1, 0x13A0), (0xFF41, 0xFF5A, 1, 0xFF21),
     (0x10428, 0x1044F, 1, 0x10400), (0x104D8, 0x104FB, 1, 0x104B0), (0x10597, 0x105BB, 2, 0x10570),
     (0x10598, 0x105A0, 2, 0x10571), (0x105A4, 0x105B0, 2, 0x1057D), (0x105B4, 0x105B8, 2, 0x1058D),
     (0x105BC, 0x105BC, 1, 0x10595), (0x10CC0, 0x10CF2, 1, 0x10C80), (0x118C0, 0x118DF, 1, 0x118A0),
     (0x16E60, 0x16E7F, 1, 0x16E40), (0x1E922, 0x1E943, 1, 0x1E900)]"

definition upper_cp :: "nat \<Rightarrow> nat list" where
  "upper_cp c =
     (if c < 0x80 then [if 97 \<le> c \<and> c \<le> 122 then c - 32 else c]
      else
        (case map_of upper_special c of
           Some u \<Rightarrow> u
         | None \<Rightarrow>
             (case find (\<lambda>(lo, hi, step, img).
                           lo \<le> c \<and> c \<le> hi \<and> (c - lo) mod step = 0) upper_ranges of
                Some (lo, hi, step, img) \<Rightarrow> [img + (c - lo)]
              | None \<Rightarrow> [c])))"

text \<open>
  On the encoding of a \<^verbatim>\<open>str\<close>, \<open>str_upper\<close> is \<^verbatim>\<open>upper\<close>. A byte sequence that encodes no
  \<^verbatim>\<open>str\<close> never reaches it; there the function capitalises the ASCII letters.
\<close>

definition str_upper :: "string \<Rightarrow> string" where
  "str_upper s =
     (case utf8_decode s of
        Some cps \<Rightarrow> utf8_encode (concat (map upper_cp cps))
      | None \<Rightarrow> map ascii_upper s)"

definition method_upper :: "'f json \<Rightarrow> py_error + string" where
  "method_upper v = (case v of JStr s \<Rightarrow> Inr (str_upper s) | _ \<Rightarrow> Inl AttributeError)"

section \<open>Loan math\<close>

text \<open>
  Float division raises on a zero divisor. With an \<^verbatim>\<open>int\<close> operand the int is converted
  first (\<^verbatim>\<open>OverflowError\<close> when it is too large), and it converts to zero only when it is 0.
\<close>

definition py_truediv :: "'f py_prims \<Rightarrow> 'f \<Rightarrow> 'f \<Rightarrow> py_error + 'f" where
  "py_truediv P x y = (if f_is_zero P y then Inl ZeroDivisionError else Inr (f_div P x y))"

definition py_truediv_int :: "'f py_prims \<Rightarrow> 'f \<Rightarrow> int \<Rightarrow> py_error + 'f" where
  "py_truediv_int P x n =
     (if \<not> f_int_fits P n then Inl OverflowError
      else if n = 0 then Inl ZeroDivisionError
      else Inr (f_div P x (f_of_int P n)))"

definition py_mul_int :: "'f py_prims \<Rightarrow> 'f \<Rightarrow> int \<Rightarrow> py_error + 'f" where
  "py_mul_int P x n =
     (if \<not> f_int_fits P n then Inl OverflowError else Inr (f_mul P x (f_of_int P n)))"

definition calculate_payments :: "'f py_prims \<Rightarrow> 'f \<Rightarrow> int \<Rightarrow> 'f \<Rightarrow> py_error + ('f \<times> 'f)" where
  "calculate_payments P loan_amount years annual_rate =
     (let monthly_rate = f_div P (f_div P annual_rate (f_of_int P 100)) (f_of_int P 12);
          total_payments = years * 12
      in exc_bind
           (if f_is_zero P monthly_rate then py_truediv_int P loan_amount total_payments
            else
              exc_bind (py_truediv P (f_of_int P 1) (f_add P (f_of_int P 1) monthly_rate)) (\<lambda>q.
              exc_bind (f_pow P q total_payments) (\<lambda>pw.
              py_truediv P (f_mul P loan_amount monthly_rate) (f_sub P (f_of_int P 1) pw))))
           (\<lambda>monthly_payment.
              exc_bind (py_mul_int P monthly_payment total_payments) (\<lambda>total_payment.
              Inr (f_round2 P monthly_payment, f_round2 P total_payment))))"

section \<open>The key-value store\<close>

text \<open>
  \<^verbatim>\<open>KVStore._data\<close> is the state; every method runs under the store's lock, so it is one
  atomic step that returns its response together with the new state.
\<close>

definition KVStore_set :: "'f dict \<Rightarrow> string \<Rightarrow> 'f json \<Rightarrow> 'f dict \<times> 'f dict" where
  "KVStore_set data key val = ([(''ok'', JBool True)], AList.update key val data)"

definition KVStore_get :: "'f dict \<Rightarrow> string \<Rightarrow> 'f dict \<times> 'f dict" where
  "KVStore_get data key =
     (case map_of data key of
        None \<Rightarrow> ([(''ok'', JBool False), (''error'', JStr ''not found'')], data)
      | Some v \<Rightarrow> ([(''ok'', JBool True), (''value'', v)], data))"

definition KVStore_delete :: "'f dict \<Rightarrow> string \<Rightarrow> 'f dict \<times> 'f dict" where
  "KVStore_delete data key =
     (let (popped, data') = py_pop data key JNull;
          existed = (popped \<noteq> JNull)
      in ([(''ok'', JBool True), (''deleted'', JBool existed)], data'))"

definition KVStore_keys :: "'f dict \<Rightarrow> 'f dict \<times> 'f dict" where
  "KVStore_keys data = ([(''ok'', JBool True), (''keys'', JArr (map (JStr \<circ> fst) data))], data)"

definition KVStore_clear :: "'f dict \<Rightarrow> 'f dict \<times> 'f dict" where
  "KVStore_clear data = ([(''ok'', JBool True)], [])"

section \<open>Command dispatch\<close>

text \<open>The body of the \<^verbatim>\<open>try\<close> of the LOAN branch, and the branch with its two handlers.\<close>

definition loan_try :: "'f py_prims \<Rightarrow> 'f dict \<Rightarrow> py_error + ('f \<times> 'f)" where
  "loan_try P req =
     (let username = py_str P (py_or P (py_get req ''username'') (JStr ''''))
      in exc_bind (py_getitem req ''loan_amount'') (\<lambda>a.
         exc_bind (py_float P a) (\<lambda>loan_amount.
         exc_bind (py_getitem req ''years'') (\<lambda>y.
         exc_bind (py_int P y) (\<lambda>years.
         exc_bind (py_getitem req ''annual_rate'') (\<lambda>r.
         exc_bind (py_float P r) (\<lambda>annual_rate.
         calculate_payments P loan_amount years annual_rate)))))))"

definition loan_branch :: "'f py_prims \<Rightarrow> 'f dict \<Rightarrow> 'f dict" where
  "loan_branch P req =
     (case loan_try P req of
        Inr (monthly, total') \<Rightarrow>
          [(''ok'', JBool True), (''monthly_payment'', JFloat monthly),
           (''total_payment'', JFloat total')]
      | Inl (KeyError k) \<Rightarrow>
          [(''ok'', JBool False), (''error'', JStr (''missing field: '' @ exc_str P (KeyError k)))]
      | Inl e \<Rightarrow> [(''ok'', JBool False), (''error'', JStr (exc_str P e))])"

text \<open>
  Lines 125 to 172 of \<^verbatim>\<open>handle_client\<close>: from the decoded request and the store to the
  response and the new store, or to the exception that leaves the block. \<^verbatim>\<open>req.get\<close>
  exists on a dict only.
\<close>

definition dispatch :: "'f py_prims \<Rightarrow> 'f json \<Rightarrow> 'f dict \<Rightarrow> py_error + ('f dict \<times> 'f dict)" where
  "dispatch P request store =
     (case request of
        JObj req \<Rightarrow>
          exc_bind (method_upper (py_or P (py_get req ''cmd'') (JStr ''''))) (\<lambda>cmd.
            if cmd = ''PING'' then Inr ([(''ok'', JBool True), (''reply'', JStr ''PONG'')], store)
            else if cmd = ''LOAN'' then Inr (loan_branch P req, store)
            else if cmd = ''SET'' then
              (let key = py_get req ''key'' in
               if key = JNull \<or> map_of req ''value'' = None
               then Inr ([(''ok'', JBool False),
                          (''error'', JStr (''SET requires '' @ [CHR 0x27] @ ''key'' @ [CHR 0x27]
                             @ '' and '' @ [CHR 0x27] @ ''value'' @ [CHR 0x27]))], store)
               else exc_bind (py_getitem req ''value'') (\<lambda>v.
                      Inr (KVStore_set store (py_str P key) v)))
            else if cmd = ''GET'' then
              (let key = py_get req ''key'' in
               if key = JNull
               then Inr ([(''ok'', JBool False),
                          (''error'', JStr (''GET requires '' @ [CHR 0x27] @ ''key'' @ [CHR 0x27]))],
                         store)
               else Inr (KVStore_get store (py_str P key)))
            else if cmd = ''DEL'' then
              (let key = py_get req ''key'' in
               if key = JNull
               then Inr ([(''ok'', JBool False),
                          (''error'', JStr (''DEL requires '' @ [CHR 0x27] @ ''key'' @ [CHR 0x27]))],
                         store)
               else Inr (KVStore_delete store (py_str P key)))
            else if cmd = ''KEYS'' then Inr (KVStore_keys store)
            else if cmd = ''CLEAR'' then Inr (KVStore_clear store)
            else Inr ([(''ok'', JBool False), (''error'', JStr (''unknown cmd: '' @ cmd))], store))
      | _ \<Rightarrow> Inl AttributeError)"

section \<open>Framing\<close>

text \<open>
  A stream reader is the list of bytes still to come before end of file.
  \<^verbatim>\<open>readexactly(n)\<close> returns the next \<open>n\<close> bytes, or raises \<^verbatim>\<open>IncompleteReadError\<close> and
  empties the buffer when the stream ends first. \<^verbatim>\<open>HEADER\<close> is \<^verbatim>\<open>struct.Struct("!I")\<close>:
  four bytes, unsigned, big-endian.
\<close>

definition readexactly :: "nat \<Rightarrow> string \<Rightarrow> (py_error + string) \<times> string" where
  "readexactly n reader =
     (if n \<le> length reader then (Inr (take n reader), drop n reader)
      else (Inl IncompleteReadError, []))"

definition HEADER_size :: nat where
  "HEADER_size = 4"


definition HEADER_unpack :: "string \<Rightarrow> nat" where
  "HEADER_unpack hdr = foldl (\<lambda>acc b. acc * 256 + of_char b) 0 hdr"

text \<open>
  The JSON library is a parameter of the frame codec: \<open>json_dumps p\<close> stands for
  \<^verbatim>\<open>json.dumps(p, separators=(",", ":")).encode("utf-8")\<close> and \<open>json_loads data\<close> for
  \<^verbatim>\<open>json.loads(data.decode("utf-8"))\<close>, which raises on bytes that are not UTF-8 JSON.
\<close>

record 'j json_codec =
  json_dumps :: "'j \<Rightarrow> string"
  json_loads :: "string \<Rightarrow> py_error + 'j"

text \<open>\<^verbatim>\<open>read_frame\<close> returns its result, or the exception, and the reader after it.\<close>

definition read_frame :: "'j json_codec \<Rightarrow> string \<Rightarrow> (py_error + 'j) \<times> string" where
  "read_frame C reader =
     (case readexactly HEADER_size reader of
        (Inl e, reader') \<Rightarrow> (Inl e, reader')
      | (Inr hdr, reader') \<Rightarrow>
          (let length' = HEADER_unpack hdr in
           if length' < 0 \<or> length' > 10000000
           then (Inl (ValueError ''invalid frame length''), reader')
           else (case readexactly length' reader' of
                   (Inl e, reader'') \<Rightarrow> (Inl e, reader'')
                 | (Inr data, reader'') \<Rightarrow> (json_loads C data, reader''))))"


section \<open>The connection handler\<close>

text \<open>
  One pass of the loop of \<^verbatim>\<open>handle_client\<close> awaits \<^verbatim>\<open>wait_for(read_frame(reader), 300)\<close>.
  Its outcome comes from the environment: the idle timeout expired, \<^verbatim>\<open>read_frame\<close>
  raised, or a request was decoded. The handler answers with calls of \<^verbatim>\<open>write_frame\<close>,
  \<^verbatim>\<open>logger.log\<close> and \<^verbatim>\<open>writer.close\<close>, recorded in order; the transport and the log file
  are taken to accept every write. A log record is listed without its \<^verbatim>\<open>ts_utc\<close> and
  \<^verbatim>\<open>peer\<close> fields. When the outcomes end with the connection still open, the handler is
  awaiting the next frame and nothing is closed.
\<close>

datatype 'f read_outcome =
    TimeoutError
  | Raised py_error
  | Frame "'f json"

datatype 'f action =
    Write_frame "'f dict"
  | Logger_log "'f dict"
  | Writer_close

fun handle_client ::
  "'f py_prims \<Rightarrow> 'f read_outcome list \<Rightarrow> 'f dict \<Rightarrow> 'f action list \<times> 'f dict" where
  "handle_client P [] store = ([], store)"
| "handle_client P (TimeoutError # rest) store =
     (let resp = [(''ok'', JBool False), (''error'', JStr ''idle timeout'')]
      in ([Write_frame resp,
           Logger_log [(''event'', JStr ''timeout''), (''response'', JObj resp)],
           Writer_close], store))"
| "handle_client P (Raised e # rest) store =
     (if e = IncompleteReadError then ([Writer_close], store)
      else
        (let resp = [(''ok'', JBool False), (''error'', JStr (exc_str P e))];
             (acts, store') = handle_client P rest store
         in (Write_frame resp
             # Logger_log [(''event'', JStr ''read_error''), (''error'', JStr (exc_str P e))]
             # acts, store')))"
| "handle_client P (Frame req # rest) store =
     (case dispatch P req store of
        Inl e \<Rightarrow> ([Writer_close], store)
      | Inr (response, store1) \<Rightarrow>
          (let (acts, store') = handle_client P rest store1
           in (Write_frame response
               # Logger_log [(''request'', req), (''response'', JObj response)]
               # acts, store')))"

section \<open>A reference interpretation\<close>

text \<open>
  To run the model on concrete inputs the primitives are interpreted over the rationals:
  every float operation is exact, so the interpretation agrees with IEEE doubles wherever
  all intermediate results are representable. Numeric strings are read as plain decimal
  digits only, and the rendering of values follows \<^verbatim>\<open>repr\<close> on scalars.
\<close>

function show_nat :: "nat \<Rightarrow> string" where
  "show_nat n =
     (if n < 10 then [char_of (48 + n)] else show_nat (n div 10) @ [char_of (48 + n mod 10)])"
  by pat_completeness auto
termination
  by (relation "measure id") auto

declare show_nat.simps [simp del]

definition show_int :: "int \<Rightarrow> string" where
  "show_int i = (if i < 0 then CHR ''-'' # show_nat (nat (- i)) else show_nat (nat i))"

fun frac_digits :: "nat \<Rightarrow> rat \<Rightarrow> string" where
  "frac_digits 0 r = []"
| "frac_digits (Suc k) r =
     (let d = nat \<lfloor>r * 10\<rfloor>; r' = r * 10 - of_nat d
      in char_of (48 + d) # (if r' = 0 then [] else frac_digits k r'))"

definition show_float :: "rat \<Rightarrow> string" where
  "show_float q =
     (let a = \<bar>q\<bar>; w = nat \<lfloor>a\<rfloor>
      in (if q < 0 then [CHR ''-''] else []) @ show_nat w @ [CHR ''.'']
         @ frac_digits 17 (a - of_nat w))"

definition is_digit :: "char \<Rightarrow> bool" where
  "is_digit c = (48 \<le> (of_char c :: nat) \<and> (of_char c :: nat) \<le> 57)"

definition digits_value :: "string \<Rightarrow> nat" where
  "digits_value ds = foldl (\<lambda>acc c. acc * 10 + (of_char c - 48)) 0 ds"

definition decimal :: "string \<Rightarrow> int option" where
  "decimal s =
     (case s of
        [] \<Rightarrow> None
      | c # r \<Rightarrow>
          if c = CHR ''-'' \<and> r \<noteq> [] \<and> list_all is_digit r then Some (- int (digits_value r))
          else if list_all is_digit s then Some (int (digits_value s))
          else None)"

definition join :: "string \<Rightarrow> string list \<Rightarrow> string" where
  "join sep xs = (case xs of [] \<Rightarrow> [] | x # r \<Rightarrow> x @ concat (map (\<lambda>y. sep @ y) r))"

fun repr :: "rat json \<Rightarrow> string"
  and repr_list :: "rat json list \<Rightarrow> string list"
  and repr_items :: "(string \<times> rat json) list \<Rightarrow> string list" where
  "repr JNull = ''None''"
| "repr (JBool b) = (if b then ''True'' else ''False'')"
| "repr (JInt n) = show_int n"
| "repr (JFloat x) = show_float x"
| "repr (JStr s) = [CHR 0x27] @ s @ [CHR 0x27]"
| "repr (JArr xs) = ''['' @ join '', '' (repr_list xs) @ '']''"
| "repr (JObj kvs) = ''{'' @ join '', '' (repr_items kvs) @ ''}''"
| "repr_list [] = []"
| "repr_list (x # xs) = repr x # repr_list xs"
| "repr_items [] = []"
| "repr_items (kv # kvs) =
     ([CHR 0x27] @ fst kv @ [CHR 0x27] @ '': '' @ repr (snd kv)) # repr_items kvs"

definition round_half_even :: "rat \<Rightarrow> int" where
  "round_half_even x =
     (let f = \<lfloor>x\<rfloor>; d = x - of_int f
      in if d < 1 / 2 then f else if 1 / 2 < d then f + 1 else if even f then f else f + 1)"

definition exact_prims :: "rat py_prims" where
  "exact_prims =
     \<lparr> f_is_zero = (\<lambda>x. x = 0),
       f_int_fits = (\<lambda>n. \<bar>n\<bar> < 2 ^ 1024),
       f_of_int = of_int,
       f_of_str = (\<lambda>s. case decimal s of
                          None \<Rightarrow> Inl (ValueError (''could not convert string to float: '' @ repr (JStr s)))
                        | Some n \<Rightarrow> Inr (of_int n)),
       f_to_int = (\<lambda>x. Inr (if 0 \<le> x then \<lfloor>x\<rfloor> else \<lceil>x\<rceil>)),
       i_of_str = (\<lambda>s. case decimal s of
                          None \<Rightarrow> Inl (ValueError (''invalid literal for int() with base 10: '' @ repr (JStr s)))
                        | Some n \<Rightarrow> Inr n),
       f_add = (+),
       f_sub = (-),
       f_mul = (*),
       f_div = (/),
       f_pow = (\<lambda>x n. if x = 0 \<and> n < 0 then Inl ZeroDivisionError else Inr (power_int x n)),
       f_round2 = (\<lambda>x. of_int (round_half_even (x * 100)) / 100),
       py_repr = repr,
       exc_text = (\<lambda>e. case e of
                          AttributeError \<Rightarrow> ''object has no attribute''
                        | TypeError \<Rightarrow> ''argument must be a string or a real number''
                        | OverflowError \<Rightarrow> ''int too large to convert to float''
                        | ZeroDivisionError \<Rightarrow> ''float division by zero''
                        | StructError \<Rightarrow> ''argument out of range''
                        | _ \<Rightarrow> []) \<rparr>"

text \<open>
  A compact JSON printer and a parser for what it prints, as an interpretation of the
  codec. Strings are escaped as \<^verbatim>\<open>json.dumps\<close> does with \<^verbatim>\<open>ensure_ascii\<close>; the parser reads
  ASCII input, decimal numbers without exponent, and escapes of characters below 256.
\<close>

definition hex_digit :: "nat \<Rightarrow> char" where
  "hex_digit n = (if n < 10 then char_of (48 + n) else char_of (87 + n))"

definition escape_char :: "char \<Rightarrow> string" where
  "escape_char c =
     (let n = (of_char c :: nat) in
      if n = 34 then [CHR 0x5C, CHR 0x22]
      else if n = 92 then [CHR 0x5C, CHR 0x5C]
      else if n = 10 then [CHR 0x5C, CHR ''n'']
      else if n = 13 then [CHR 0x5C, CHR ''r'']
      else if n = 9 then [CHR 0x5C, CHR ''t'']
      else if n = 8 then [CHR 0x5C, CHR ''b'']
      else if n = 12 then [CHR 0x5C, CHR ''f'']
      else if n < 32 \<or> 127 < n
      then [CHR 0x5C, CHR ''u'', CHR ''0'', CHR ''0'', hex_digit (n div 16), hex_digit (n mod 16)]
      else [c])"

definition dumps_str :: "string \<Rightarrow> string" where
  "dumps_str s = [CHR 0x22] @ concat (map escape_char s) @ [CHR 0x22]"

fun dumps :: "rat json \<Rightarrow> string"
  and dumps_list :: "rat json list \<Rightarrow> string list"
  and dumps_items :: "(string \<times> rat json) list \<Rightarrow> string list" where
  "dumps JNull = ''null''"
| "dumps (JBool b) = (if b then ''true'' else ''false'')"
| "dumps (JInt n) = show_int n"
| "dumps (JFloat x) = show_float x"
| "dumps (JStr s) = dumps_str s"
| "dumps (JArr xs) = ''['' @ join '','' (dumps_list xs) @ '']''"
| "dumps (JObj kvs) = ''{'' @ join '','' (dumps_items kvs) @ ''}''"
| "dumps_list [] = []"
| "dumps_list (x # xs) = dumps x # dumps_list xs"
| "dumps_items [] = []"
| "dumps_items (kv # kvs) = (dumps_str (fst kv) @ '':'' @ dumps (snd kv)) # dumps_items kvs"

definition is_ws :: "char \<Rightarrow> bool" where
  "is_ws c = ((of_char c :: nat) \<in> {32, 9, 10, 13})"

definition skip_ws :: "string \<Rightarrow> string" where
  "skip_ws s = dropWhile is_ws s"

definition hex_value :: "char \<Rightarrow> nat option" where
  "hex_value c =
     (let n = (of_char c :: nat) in
      if 48 \<le> n \<and> n \<le> 57 then Some (n - 48)
      else if 97 \<le> n \<and> n \<le> 102 then Some (n - 87)
      else if 65 \<le> n \<and> n \<le> 70 then Some (n - 55)
      else None)"

definition unescape :: "char \<Rightarrow> char option" where
  "unescape e =
     map_of [(CHR 0x22, CHR 0x22), (CHR 0x5C, CHR 0x5C), (CHR ''/'', CHR ''/''),
             (CHR ''b'', CHR 0x08), (CHR ''f'', CHR 0x0C), (CHR ''n'', CHR 0x0A),
             (CHR ''r'', CHR 0x0D), (CHR ''t'', CHR 0x09)] e"

text \<open>The characters of a string literal after its opening quote, and the rest.\<close>

fun parse_string :: "string \<Rightarrow> (string \<times> string) option" where
  "parse_string [] = None"
| "parse_string (c # r) =
     (if c = CHR 0x22 then Some ([], r)
      else if c = CHR 0x5C then
        (case r of
           [] \<Rightarrow> None
         | e # r' \<Rightarrow>
             if e = CHR ''u'' then
               (if length r' < 4 then None
                else
                  (case (hex_value (r' ! 0), hex_value (r' ! 1), hex_value (r' ! 2),
                         hex_value (r' ! 3)) of
                     (Some a, Some b, Some h, Some l) \<Rightarrow>
                       if a = 0 \<and> b = 0
                       then map_option (\<lambda>(s, t). (char_of (h * 16 + l) # s, t))
                              (parse_string (drop 4 r'))
                       else None
                   | _ \<Rightarrow> None))
             else
               (case unescape e of
                  None \<Rightarrow> None
                | Some d \<Rightarrow> map_option (\<lambda>(s, t). (d # s, t)) (parse_string r')))
      else if (of_char c :: nat) < 32 then None
      else map_option (\<lambda>(s, t). (c # s, t)) (parse_string r))"

definition parse_number :: "string \<Rightarrow> (rat json \<times> string) option" where
  "parse_number s =
     (let neg = (s \<noteq> [] \<and> hd s = CHR ''-'');
          s1 = (if neg then tl s else s);
          ds = takeWhile is_digit s1;
          s2 = dropWhile is_digit s1;
          sg = (if neg then - 1 else 1)
      in if ds = [] then None
         else if s2 \<noteq> [] \<and> hd s2 = CHR ''.'' then
           (let fs = takeWhile is_digit (tl s2); s3 = dropWhile is_digit (tl s2)
            in if fs = [] then None
               else Some (JFloat (of_int sg * (of_nat (digits_value ds)
                            + of_nat (digits_value fs) / 10 ^ length fs)), s3))
         else Some (JInt (sg * int (digits_value ds)), s2))"

definition literal :: "string \<Rightarrow> 'a \<Rightarrow> string \<Rightarrow> ('a \<times> string) option" where
  "literal l v s = (if take (length l) s = l then Some (v, drop (length l) s) else None)"

fun parse_value :: "nat \<Rightarrow> string \<Rightarrow> (rat json \<times> string) option"
  and parse_elements :: "nat \<Rightarrow> string \<Rightarrow> (rat json list \<times> string) option"
  and parse_members :: "nat \<Rightarrow> string \<Rightarrow> ((string \<times> rat json) list \<times> string) option" where
  "parse_value 0 s = None"
| "parse_value (Suc n) s =
     (case skip_ws s of
        [] \<Rightarrow> None
      | c # r \<Rightarrow>
          if c = CHR ''n'' then literal ''null'' JNull (c # r)
          else if c = CHR ''t'' then literal ''true'' (JBool True) (c # r)
          else if c = CHR ''f'' then literal ''false'' (JBool False) (c # r)
          else if c = CHR 0x22 then map_option (\<lambda>(x, t). (JStr x, t)) (parse_string r)
          else if c = CHR ''['' then
            (case skip_ws r of
               [] \<Rightarrow> None
             | d # t \<Rightarrow>
                 if d = CHR '']'' then Some (JArr [], t)
                 else map_option (\<lambda>(xs, u). (JArr xs, u)) (parse_elements n (d # t)))
          else if c = CHR ''{'' then
            (case skip_ws r of
               [] \<Rightarrow> None
             | d # t \<Rightarrow>
                 if d = CHR ''}'' then Some (JObj [], t)
                 else map_option
                        (\<lambda>(kvs, u). (JObj (foldl (\<lambda>m kv. AList.update (fst kv) (snd kv) m) [] kvs), u))
                        (parse_members n (d # t)))
          else parse_number (c # r))"
| "parse_elements 0 s = None"
| "parse_elements (Suc n) s =
     (case parse_value n s of
        None \<Rightarrow> None
      | Some (v, r) \<Rightarrow>
          (case skip_ws r of
             [] \<Rightarrow> None
           | c # t \<Rightarrow>
               if c = CHR '','' then map_option (\<lambda>(vs, u). (v # vs, u)) (parse_elements n t)
               else if c = CHR '']'' then Some ([v], t)
               else None))"
| "parse_members 0 s = None"
| "parse_members (Suc n) s =
     (case skip_ws s of
        [] \<Rightarrow> None
      | q # r \<Rightarrow>
          if q \<noteq> CHR 0x22 then None
          else
            (case parse_string r of
               None \<Rightarrow> None
             | Some (k, r1) \<Rightarrow>
                 (case skip_ws r1 of
                    [] \<Rightarrow> None
                  | c # r2 \<Rightarrow>
                      if c \<noteq> CHR '':'' then None
                      else
                        (case parse_value n r2 of
                           None \<Rightarrow> None
                         | Some (v, r3) \<Rightarrow>
                             (case skip_ws r3 of
                                [] \<Rightarrow> None
                              | d # t \<Rightarrow>
                                  if d = CHR '','' then
                                    map_option (\<lambda>(kvs, u). ((k, v) # kvs, u)) (parse_members n t)
                                  else if d = CHR ''}'' then Some ([(k, v)], t)
                                  else None)))))"

definition loads :: "string \<Rightarrow> py_error + rat json" where
  "loads data =
     (if \<not> list_all (\<lambda>c. (of_char c :: nat) < 128) data
      then Inl (ValueError ''invalid start byte'')
      else (case parse_value (Suc (length data)) data of
              None \<Rightarrow> Inl (ValueError ''Expecting value'')
            | Some (v, r) \<Rightarrow>
                if skip_ws r = [] then Inr v else Inl (ValueError ''Extra data'')))"

definition compact_codec :: "(rat json) json_codec" where
  "compact_codec = \<lparr> json_dumps = dumps, json_loads = loads \<rparr>"

section \<open>Notions of the specification\<close>

text \<open>
  Two command names are identical except for the case of their ASCII letters when
  lowering the letters \<open>A\<close> to \<open>Z\<close> makes them equal; the bytes of every other
  character are left alone. The dispatcher itself compares \<open>str_upper\<close>.
\<close>

definition ascii_lower :: "char \<Rightarrow> char" where
  "ascii_lower c =
     (let n = (of_char c :: nat) in if 65 \<le> n \<and> n \<le> 90 then char_of (n + 32) else c)"

definition differ_only_in_ascii_case :: "string \<Rightarrow> string \<Rightarrow> bool" where
  "differ_only_in_ascii_case a b = (map ascii_lower a = map ascii_lower b)"

text \<open>
  The standard fixed-rate amortization formula gives the payment per period for a principal
  \<open>p\<close> at periodic rate \<open>r\<close> over \<open>n\<close> periods as \<open>p r / (1 - (1 + r)\<^sup>-\<^sup>n)\<close>.
  \<open>amortization_formula P\<close> is that formula in the float arithmetic of \<open>P\<close>, with
  \<open>(1 + r)\<^sup>-\<^sup>n\<close> taken as the \<open>n\<close>-th power of \<open>1 / (1 + r)\<close>; a division by zero raises, as
  every float division of Python does. \<open>standard_payment\<close> is the value of the formula in
  exact arithmetic, in its textbook form, and \<open>balance\<close> is the outstanding balance after
  \<open>k\<close> periods when \<open>m\<close> is paid at the end of each period. These follow the wording of
  the specification; the code is \<open>calculate_payments\<close>.
\<close>

definition amortization_formula :: "'f py_prims \<Rightarrow> 'f \<Rightarrow> 'f \<Rightarrow> int \<Rightarrow> py_error + 'f" where
  "amortization_formula P p r n =
     exc_bind (py_truediv P (f_of_int P 1) (f_add P (f_of_int P 1) r)) (\<lambda>q.
     exc_bind (f_pow P q n) (\<lambda>d.
     py_truediv P (f_mul P p r) (f_sub P (f_of_int P 1) d)))"

definition standard_payment :: "rat \<Rightarrow> rat \<Rightarrow> nat \<Rightarrow> rat" where
  "standard_payment p r n = p * r * (1 + r) ^ n / ((1 + r) ^ n - 1)"

fun balance :: "rat \<Rightarrow> rat \<Rightarrow> rat \<Rightarrow> nat \<Rightarrow> rat" where
  "balance p r m 0 = p"
| "balance p r m (Suc k) = balance p r m k * (1 + r) - m"

section \<open>Properties of the store\<close>

lemma KVStore_delete_cases:
  "KVStore_delete data key =
     (case map_of data key of
        None \<Rightarrow> ([(''ok'', JBool True), (''deleted'', JBool False)], data)
      | Some v \<Rightarrow> ([(''ok'', JBool True), (''deleted'', JBool (v \<noteq> JNull))],
                   AList.delete key data))"
  by (simp add: KVStore_delete_def py_pop_def split: option.splits)

lemma str_upper_literals:
  "str_upper ''SET'' = ''SET''" "str_upper ''DEL'' = ''DEL''" "str_upper ''GET'' = ''GET''"
  "str_upper ''KEYS'' = ''KEYS''" "str_upper ''CLEAR'' = ''CLEAR''" "str_upper ''PING'' = ''PING''"
  "str_upper ''LOAN'' = ''LOAN''" "str_upper [] = []"
  by (simp_all add: str_upper_def utf8_decode_def utf8_encode_def utf8_encode_cp_def upper_cp_def
      char_of_eq_iff)

text \<open>
  Claim C2. \<^verbatim>\<open>delete(key)\<close> is to report \<open>deleted: true\<close> exactly when the key was present,
  whatever value was stored. \<^verbatim>\<open>KVStore.delete\<close> computes the flag as
  \<^verbatim>\<open>self._data.pop(key, None) is not None\<close>, so an entry whose value is \<^verbatim>\<open>None\<close> (JSON
  \<^verbatim>\<open>null\<close>, which SET accepts) is removed and reported as absent. The theorem runs the
  store operation on such an entry, and the two requests that lead there.
\<close>

theorem delete_null_entry_reports_absent:
  "KVStore_delete [(''a'', JNull)] ''a'' = ([(''ok'', JBool True), (''deleted'', JBool False)], [])
   \<and> dispatch P (JObj [(''cmd'', JStr ''SET''), (''key'', JStr ''a''), (''value'', JNull)]) []
       = Inr ([(''ok'', JBool True)], [(''a'', JNull)])
   \<and> dispatch P (JObj [(''cmd'', JStr ''DEL''), (''key'', JStr ''a'')]) [(''a'', JNull)]
       = Inr ([(''ok'', JBool True), (''deleted'', JBool False)], [])"
  by (simp add: dispatch_def exc_bind_def method_upper_def py_or_def py_truthy_def py_get_def
      py_getitem_def py_str_def KVStore_set_def KVStore_delete_def py_pop_def str_upper_literals)

text \<open>
  Claim C7. From every store state, \<^verbatim>\<open>clear()\<close> followed by \<^verbatim>\<open>keys()\<close> answers
  \<open>{ok: true, keys: []}\<close>: on the store itself, and through the CLEAR and KEYS commands of
  the dispatcher.
\<close>

theorem clear_then_keys_empty:
  "KVStore_keys (snd (KVStore_clear data)) = ([(''ok'', JBool True), (''keys'', JArr [])], [])
   \<and> fst (KVStore_clear data) = [(''ok'', JBool True)]
   \<and> (\<exists>store'. dispatch P (JObj [(''cmd'', JStr ''CLEAR'')]) store = Inr ([(''ok'', JBool True)], store')
        \<and> dispatch P (JObj [(''cmd'', JStr ''KEYS'')]) store'
            = Inr ([(''ok'', JBool True), (''keys'', JArr [])], store'))"
  by (simp add: dispatch_def exc_bind_def method_upper_def py_or_def py_truthy_def py_get_def
      KVStore_keys_def KVStore_clear_def str_upper_literals)

section \<open>Properties of the dispatcher\<close>

text \<open>
  Claim C1. The dispatch step is to answer every decoded request with a response and never
  let an exception escape. The block has no handler of its own: \<^verbatim>\<open>req.get\<close> on a payload
  that is not an object, and \<^verbatim>\<open>.upper()\<close> on a truthy \<open>cmd\<close> that is not a string, raise
  \<^verbatim>\<open>AttributeError\<close>, and \<^verbatim>\<open>handle_client\<close> then closes the connection without a response.
\<close>

theorem dispatch_raises_on_malformed_request:
  "dispatch P (JObj [(''cmd'', JInt 5)]) store = Inl AttributeError
   \<and> dispatch P (JArr []) store = Inl AttributeError
   \<and> handle_client P [Frame (JObj [(''cmd'', JInt 5)])] store = ([Writer_close], store)"
  by (simp add: dispatch_def exc_bind_def method_upper_def py_or_def py_truthy_def py_get_def)

lemma of_char_lt_256: "(of_char c :: nat) < 256"
  by (metis of_char_mod_256 mod_less_divisor zero_less_numeral)

lemma code_ascii_lower:
  "(of_char (ascii_lower c) :: nat) =
     (if 65 \<le> (of_char c :: nat) \<and> (of_char c :: nat) \<le> 90 then of_char c + 32 else of_char c)"
  by (simp add: ascii_lower_def Let_def)

lemma code_ascii_upper:
  "(of_char (ascii_upper c) :: nat) =
     (if 97 \<le> (of_char c :: nat) \<and> (of_char c :: nat) \<le> 122 then of_char c - 32 else of_char c)"
proof -
  have "(of_char c - 32 :: nat) mod 256 = of_char c - 32"
    using of_char_lt_256 [of c] by (intro mod_less) arith
  then show ?thesis by (simp add: ascii_upper_def Let_def)
qed

lemma ascii_upper_lower: "ascii_upper (ascii_lower c) = ascii_upper c"
proof -
  have "(of_char (ascii_upper (ascii_lower c)) :: nat) = of_char (ascii_upper c)"
    unfolding code_ascii_upper code_ascii_lower by (auto split: if_splits)
  then show ?thesis by (simp only: of_char_eq_iff)
qed

text \<open>
  Lowering the ASCII letters of an encoded \<^verbatim>\<open>str\<close> lowers the ASCII letters among its
  characters and touches no byte of a longer character.
\<close>

lemma decode_from_lower:
  "(0 < k \<longrightarrow> 128 \<le> lo) \<Longrightarrow>
   decode_from k lo acc (map ascii_lower s) =
     map_option (map (\<lambda>c. if 65 \<le> c \<and> c \<le> 90 then c + 32 else c)) (decode_from k lo acc s)"
proof (induction s arbitrary: k lo acc)
  case Nil
  then show ?case by simp
next
  case (Cons b r)
  have ih: "decode_from k' lo' acc' (map ascii_lower r) =
     map_option (map (\<lambda>c. if 65 \<le> c \<and> c \<le> 90 then c + 32 else c)) (decode_from k' lo' acc' r)"
    if "0 < k' \<longrightarrow> 128 \<le> lo'" for k' lo' acc'
    using that by (rule Cons.IH)
  show ?case
  proof (cases "(of_char b :: nat) < 128")
    case True
    then show ?thesis
      using Cons.prems
      by (auto simp: Let_def code_ascii_lower ih option.map_comp o_def)
  next
    case False
    then have b: "ascii_lower b = b" by (simp add: ascii_lower_def Let_def)
    show ?thesis
      using Cons.prems False
      by (auto simp: Let_def b ih option.map_comp o_def)
  qed
qed

lemma upper_cp_lower: "upper_cp (if 65 \<le> c \<and> c \<le> 90 then c + 32 else c) = upper_cp c"
  by (simp add: upper_cp_def)

lemma str_upper_lower: "str_upper (map ascii_lower s) = str_upper s"
proof (cases "decode_from 0 0 0 s")
  case None
  then show ?thesis
    by (simp add: str_upper_def utf8_decode_def decode_from_lower ascii_upper_lower)
next
  case (Some cps)
  have l: "decode_from 0 0 0 (map ascii_lower s)
      = Some (map (\<lambda>c. if 65 \<le> c \<and> c \<le> 90 then c + 32 else c) cps)"
    using Some by (simp add: decode_from_lower)
  have m: "concat (map upper_cp (map (\<lambda>c. if 65 \<le> c \<and> c \<le> 90 then c + 32 else c) cps))
      = concat (map upper_cp cps)"
    by (simp add: o_def upper_cp_lower)
  show ?thesis
    by (simp only: str_upper_def utf8_decode_def l Some option.case m)
qed

lemma differ_only_in_ascii_case_upper:
  assumes "differ_only_in_ascii_case a b"
  shows "str_upper a = str_upper b"
proof -
  have "str_upper a = str_upper (map ascii_lower a)" by (simp only: str_upper_lower)
  also have "\<dots> = str_upper (map ascii_lower b)"
    using assms by (simp add: differ_only_in_ascii_case_def)
  also have "\<dots> = str_upper b" by (simp only: str_upper_lower)
  finally show ?thesis .
qed

text \<open>The value of \<^verbatim>\<open>cmd\<close> when the request carries a string, and the dispatch on it.\<close>

lemma cmd_of_string:
  "map_of req ''cmd'' = Some (JStr c) \<Longrightarrow>
     method_upper (py_or P (py_get req ''cmd'') (JStr '''')) = Inr (str_upper c)"
  by (cases c)
    (simp_all add: py_get_def py_or_def py_truthy_def method_upper_def str_upper_def
      utf8_decode_def utf8_encode_def)

lemma dispatch_cmd:
  assumes "map_of req ''cmd'' = Some (JStr c)"
  shows "dispatch P (JObj req) store =
    (let cmd = str_upper c in
     if cmd = ''PING'' then Inr ([(''ok'', JBool True), (''reply'', JStr ''PONG'')], store)
            else if cmd = ''LOAN'' then Inr (loan_branch P req, store)
            else if cmd = ''SET'' then
              (let key = py_get req ''key'' in
               if key = JNull \<or> map_of req ''value'' = None
               then Inr ([(''ok'', JBool False),
                          (''error'', JStr (''SET requires '' @ [CHR 0x27] @ ''key'' @ [CHR 0x27]
                             @ '' and '' @ [CHR 0x27] @ ''value'' @ [CHR 0x27]))], store)
               else exc_bind (py_getitem req ''value'') (\<lambda>v.
                      Inr (KVStore_set store (py_str P key) v)))
            else if cmd = ''GET'' then
              (let key = py_get req ''key'' in
               if key = JNull
               then Inr ([(''ok'', JBool False),
                          (''error'', JStr (''GET requires '' @ [CHR 0x27] @ ''key'' @ [CHR 0x27]))],
                         store)
               else Inr (KVStore_get store (py_str P key)))
            else if cmd = ''DEL'' then
              (let key = py_get req ''key'' in
               if key = JNull
               then Inr ([(''ok'', JBool False),
                          (''error'', JStr (''DEL requires '' @ [CHR 0x27] @ ''key'' @ [CHR 0x27]))],
                         store)
               else Inr (KVStore_delete store (py_str P key)))
            else if cmd = ''KEYS'' then Inr (KVStore_keys store)
            else if cmd = ''CLEAR'' then Inr (KVStore_clear store)
            else Inr ([(''ok'', JBool False), (''error'', JStr (''unknown cmd: '' @ cmd))], store))"
  unfolding dispatch_def by (simp add: cmd_of_string [OF assms] exc_bind_def Let_def)

lemma loan_branch_cong:
  assumes "map_of r1 ''username'' = map_of r2 ''username''"
    "map_of r1 ''loan_amount'' = map_of r2 ''loan_amount''"
    "map_of r1 ''years'' = map_of r2 ''years''"
    "map_of r1 ''annual_rate'' = map_of r2 ''annual_rate''"
  shows "loan_branch P r1 = loan_branch P r2"
  using assms by (simp add: loan_branch_def loan_try_def py_get_def py_getitem_def)

text \<open>
  The response depends on \<open>cmd\<close> only through its uppercase form.
\<close>

lemma dispatch_same_upper:
  assumes c1: "map_of r1 ''cmd'' = Some (JStr c1)"
    and c2: "map_of r2 ''cmd'' = Some (JStr c2)"
    and up: "str_upper c1 = str_upper c2"
    and rest: "\<forall>k. k \<noteq> ''cmd'' \<longrightarrow> map_of r1 k = map_of r2 k"
  shows "dispatch P (JObj r1) store = dispatch P (JObj r2) store"
proof -
  have loan: "loan_branch P r1 = loan_branch P r2"
    using rest by (intro loan_branch_cong) simp_all
  have key: "py_get r1 ''key'' = py_get r2 ''key''"
    and val: "map_of r1 ''value'' = map_of r2 ''value''"
    and item: "py_getitem r1 ''value'' = py_getitem r2 ''value''"
    using rest by (simp_all add: py_get_def py_getitem_def)
  show ?thesis
    unfolding dispatch_cmd [OF c1] dispatch_cmd [OF c2] up loan key val item ..
qed

text \<open>
  Claim C9, as amended. Dispatch is insensitive to the case of the ASCII letters of
  \<open>cmd\<close>: two requests whose \<open>cmd\<close> strings are identical except for the case of their
  letters \<open>a\<close> to \<open>z\<close>, and which agree on every other field, get the same response and
  leave the store in the same state. Every spelling of the seven command names is of
  this kind.
\<close>

theorem dispatch_case_insensitive:
  assumes c1: "map_of r1 ''cmd'' = Some (JStr c1)"
    and c2: "map_of r2 ''cmd'' = Some (JStr c2)"
    and cs: "differ_only_in_ascii_case c1 c2"
    and rest: "\<forall>k. k \<noteq> ''cmd'' \<longrightarrow> map_of r1 k = map_of r2 k"
  shows "dispatch P (JObj r1) store = dispatch P (JObj r2) store"
  using c1 c2 differ_only_in_ascii_case_upper [OF cs] rest by (rule dispatch_same_upper)

theorem dispatch_case_insensitive_witness:
  "differ_only_in_ascii_case ''set'' ''SeT''
   \<and> dispatch exact_prims (JObj [(''cmd'', JStr ''set''), (''key'', JStr ''a''), (''value'', JInt 1)]) []
     = dispatch exact_prims (JObj [(''cmd'', JStr ''SeT''), (''key'', JStr ''a''), (''value'', JInt 1)]) []
   \<and> dispatch exact_prims (JObj [(''cmd'', JStr ''SeT''), (''key'', JStr ''a''), (''value'', JInt 1)]) []
     = Inr ([(''ok'', JBool True)], [(''a'', JInt 1)])"
proof -
  have d: "differ_only_in_ascii_case ''set'' ''SeT''"
    by code_simp
  have u: "str_upper ''SeT'' = ''SET''"
    by (simp add: str_upper_def utf8_decode_def utf8_encode_def utf8_encode_cp_def upper_cp_def
        char_of_eq_iff)
  have "dispatch exact_prims (JObj [(''cmd'', JStr ''set''), (''key'', JStr ''a''), (''value'', JInt 1)]) []
     = dispatch exact_prims (JObj [(''cmd'', JStr ''SeT''), (''key'', JStr ''a''), (''value'', JInt 1)]) []"
    using d by (intro dispatch_case_insensitive [where ?c1.0 = "''set''" and ?c2.0 = "''SeT''"]) simp_all
  moreover have "dispatch exact_prims (JObj [(''cmd'', JStr ''SeT''), (''key'', JStr ''a''), (''value'', JInt 1)]) []
     = Inr ([(''ok'', JBool True)], [(''a'', JInt 1)])"
    by (simp add: dispatch_def exc_bind_def method_upper_def py_or_def py_truthy_def py_get_def
      py_getitem_def py_str_def KVStore_set_def u)
  ultimately show ?thesis using d by simp
qed

text \<open>
  The claim as stated covers every letter. Outside ASCII the two cases of a letter need
  not have the same uppercase form: the capital of the small sharp s (U+00DF, bytes
  \<open>C3 9F\<close>) is the capital sharp s (U+1E9E, bytes \<open>E1 BA 9E\<close>), yet \<^verbatim>\<open>upper\<close> turns the
  small one into \<open>SS\<close> and leaves the capital one as it is. The two requests are
  answered differently.
\<close>

theorem sharp_s_case_sensitive:
  "utf8_decode [CHR 0xC3, CHR 0x9F] = Some [0xDF]
   \<and> utf8_decode [CHR 0xE1, CHR 0xBA, CHR 0x9E] = Some [0x1E9E]
   \<and> dispatch exact_prims (JObj [(''cmd'', JStr [CHR 0xC3, CHR 0x9F])]) []
       = Inr ([(''ok'', JBool False), (''error'', JStr ''unknown cmd: SS'')], [])
   \<and> dispatch exact_prims (JObj [(''cmd'', JStr [CHR 0xE1, CHR 0xBA, CHR 0x9E])]) []
       = Inr ([(''ok'', JBool False),
               (''error'', JStr (''unknown cmd: '' @ [CHR 0xE1, CHR 0xBA, CHR 0x9E]))], [])"
proof -
  have d: "utf8_decode [CHR 0xC3, CHR 0x9F] = Some [0xDF]"
    "utf8_decode [CHR 0xE1, CHR 0xBA, CHR 0x9E] = Some [0x1E9E]"
    by (simp_all add: utf8_decode_def)
  have c: "upper_cp 0xDF = [0x53, 0x53]"
    by (simp add: upper_cp_def upper_special_def)
  have c': "upper_cp 0x1E9E = [0x1E9E]"
    by (simp add: upper_cp_def upper_special_def upper_ranges_def)
  have u: "str_upper [CHR 0xC3, CHR 0x9F] = ''SS''"
    "str_upper [CHR 0xE1, CHR 0xBA, CHR 0x9E] = [CHR 0xE1, CHR 0xBA, CHR 0x9E]"
    by (simp_all add: str_upper_def d c c' utf8_encode_def utf8_encode_cp_def char_of_eq_iff)
  have 1: "dispatch exact_prims (JObj [(''cmd'', JStr [CHR 0xC3, CHR 0x9F])]) []
       = Inr ([(''ok'', JBool False), (''error'', JStr ''unknown cmd: SS'')], [])"
    by (simp add: dispatch_def exc_bind_def method_upper_def py_or_def py_truthy_def py_get_def u)
  have 2: "dispatch exact_prims (JObj [(''cmd'', JStr [CHR 0xE1, CHR 0xBA, CHR 0x9E])]) []
       = Inr ([(''ok'', JBool False),
               (''error'', JStr (''unknown cmd: '' @ [CHR 0xE1, CHR 0xBA, CHR 0x9E]))], [])"
    by (simp add: dispatch_def exc_bind_def method_upper_def py_or_def py_truthy_def py_get_def u)
  from d 1 2 show ?thesis by simp
qed

text \<open>
  Claim C10. The store is keyed by strings (its type says so): SET, GET and DEL pass the
  request's key through \<^verbatim>\<open>str\<close>. So for every key value \<open>k\<close> other than \<^verbatim>\<open>null\<close>, string
  or not, SET with key \<open>k\<close> stores the value under \<open>py_str P k\<close>, and a following GET
  with key \<open>k\<close> returns the value just set.
\<close>

theorem set_then_get_returns_value:
  assumes cs: "map_of rs ''cmd'' = Some (JStr cs)" and us: "str_upper cs = ''SET''"
    and ks: "map_of rs ''key'' = Some k" and k: "k \<noteq> JNull"
    and vs: "map_of rs ''value'' = Some v"
    and cg: "map_of rg ''cmd'' = Some (JStr cg)" and ug: "str_upper cg = ''GET''"
    and kg: "map_of rg ''key'' = Some k"
  shows "\<exists>store1.
           dispatch P (JObj rs) store = Inr ([(''ok'', JBool True)], store1)
         \<and> store1 = AList.update (py_str P k) v store
         \<and> dispatch P (JObj rg) store1 = Inr ([(''ok'', JBool True), (''value'', v)], store1)"
proof -
  have s: "dispatch P (JObj rs) store = Inr ([(''ok'', JBool True)], AList.update (py_str P k) v store)"
    using ks k vs
    by (simp add: dispatch_cmd [OF cs] us py_get_def py_getitem_def exc_bind_def KVStore_set_def)
  have g: "dispatch P (JObj rg) (AList.update (py_str P k) v store)
      = Inr ([(''ok'', JBool True), (''value'', v)], AList.update (py_str P k) v store)"
    using kg k
    by (simp add: dispatch_cmd [OF cg] ug py_get_def KVStore_get_def update_conv')
  from s g show ?thesis by simp
qed

theorem set_then_get_returns_value_witness:
  "dispatch exact_prims (JObj [(''cmd'', JStr ''SET''), (''key'', JInt 5), (''value'', JStr ''x'')]) []
     = Inr ([(''ok'', JBool True)], [(''5'', JStr ''x'')])
   \<and> dispatch exact_prims (JObj [(''cmd'', JStr ''GET''), (''key'', JInt 5)]) [(''5'', JStr ''x'')]
     = Inr ([(''ok'', JBool True), (''value'', JStr ''x'')], [(''5'', JStr ''x'')])"
proof -
  have five: "py_str exact_prims (JInt 5) = ''5''"
  proof -
    have "show_nat 5 = ''5''" by code_simp
    then show ?thesis by (simp add: py_str_def exact_prims_def show_int_def)
  qed
  show ?thesis
    using set_then_get_returns_value [of "[(''cmd'', JStr ''SET''), (''key'', JInt 5), (''value'', JStr ''x'')]"
        "''SET''" "JInt 5" "JStr ''x''" "[(''cmd'', JStr ''GET''), (''key'', JInt 5)]" "''GET''"
        exact_prims "[]"]
    by (simp add: str_upper_literals five)
qed

lemma loan_try_missing:
  assumes "map_of req ''loan_amount'' = None \<or> map_of req ''years'' = None
     \<or> map_of req ''annual_rate'' = None"
  shows "\<exists>e. loan_try P req = Inl e"
  using assms
  by (auto simp: loan_try_def py_getitem_def exc_bind_def Let_def split: sum.splits option.splits)

lemma loan_branch_error:
  assumes "loan_try P req = Inl e"
  shows "\<exists>msg. loan_branch P req = [(''ok'', JBool False), (''error'', JStr msg)]"
  using assms by (cases e) (simp_all add: loan_branch_def)

text \<open>
  Claim C3, as amended. A LOAN request that lacks \<open>loan_amount\<close>, \<open>years\<close> or
  \<open>annual_rate\<close> is answered with \<open>{ok: false, error: ...}\<close> and leaves the store as
  it is; the error is \<open>missing field: 'loan_amount'\<close> when that field is the missing one,
  and otherwise the missing-field message of a later field or the text of an exception
  raised before it was read. \<open>username\<close> is not among the required fields.
\<close>

theorem loan_missing_field_fails:
  assumes c: "map_of req ''cmd'' = Some (JStr c)" and u: "str_upper c = ''LOAN''"
    and m: "map_of req ''loan_amount'' = None \<or> map_of req ''years'' = None
       \<or> map_of req ''annual_rate'' = None"
  shows "(\<exists>msg. dispatch P (JObj req) store
            = Inr ([(''ok'', JBool False), (''error'', JStr msg)], store))
       \<and> (map_of req ''loan_amount'' = None \<longrightarrow>
            dispatch P (JObj req) store
            = Inr ([(''ok'', JBool False),
                    (''error'', JStr (''missing field: '' @ [CHR 0x27] @ ''loan_amount'' @ [CHR 0x27]))],
                   store))"
proof -
  from loan_try_missing [OF m] obtain e where e: "loan_try P req = Inl e" ..
  from loan_branch_error [OF e] obtain msg
    where "loan_branch P req = [(''ok'', JBool False), (''error'', JStr msg)]" ..
  then have 1: "\<exists>msg. dispatch P (JObj req) store
            = Inr ([(''ok'', JBool False), (''error'', JStr msg)], store)"
    by (simp add: dispatch_cmd [OF c] u)
  have 2: "dispatch P (JObj req) store
            = Inr ([(''ok'', JBool False),
                    (''error'', JStr (''missing field: '' @ [CHR 0x27] @ ''loan_amount'' @ [CHR 0x27]))],
                   store)" if "map_of req ''loan_amount'' = None"
    using that
    by (simp add: dispatch_cmd [OF c] u loan_branch_def loan_try_def py_getitem_def exc_bind_def
        exc_str_def)
  from 1 2 show ?thesis by blast
qed

theorem loan_missing_field_fails_witness:
  "dispatch exact_prims (JObj [(''cmd'', JStr ''LOAN''), (''username'', JStr ''ann''),
       (''years'', JInt 5), (''annual_rate'', JInt 6)]) []
     = Inr ([(''ok'', JBool False),
             (''error'', JStr (''missing field: '' @ [CHR 0x27] @ ''loan_amount'' @ [CHR 0x27]))], [])"
  using loan_missing_field_fails [of "[(''cmd'', JStr ''LOAN''), (''username'', JStr ''ann''),
       (''years'', JInt 5), (''annual_rate'', JInt 6)]" "''LOAN''" exact_prims "[]"]
  by (simp add: str_upper_literals)

text \<open>
  The claim as stated also lists \<open>username\<close> as required. The code reads it with
  \<^verbatim>\<open>req.get("username") or ""\<close>, so a request without it succeeds.
\<close>

theorem loan_without_username_succeeds:
  "dispatch exact_prims (JObj [(''cmd'', JStr ''LOAN''), (''loan_amount'', JInt 1200),
       (''years'', JInt 1), (''annual_rate'', JInt 0)]) []
     = Inr ([(''ok'', JBool True), (''monthly_payment'', JFloat 100),
             (''total_payment'', JFloat 1200)], [])"
  by (simp add: dispatch_def exc_bind_def method_upper_def py_or_def py_truthy_def py_get_def
      py_getitem_def py_str_def str_upper_literals loan_branch_def loan_try_def py_float_def
      py_int_def py_float_of_int_def calculate_payments_def py_truediv_int_def py_mul_int_def
      exact_prims_def round_half_even_def)

section \<open>Properties of the frame codec\<close>




lemma loads_samples:
  "loads (dumps (JObj [(''ok'', JBool True), (''reply'', JStr ''PONG'')]))
     = Inr (JObj [(''ok'', JBool True), (''reply'', JStr ''PONG'')])"
  "loads ''null'' = Inr JNull"
  by code_simp+


text \<open>
  Claim C5. Let \<open>L\<close> be the length that the first four bytes of the stream declare. When
  \<open>L\<close> exceeds 10,000,000, \<^verbatim>\<open>read_frame\<close> raises \<^verbatim>\<open>ValueError("invalid frame length")\<close> and the
  reader stands right after the header: no body byte is consumed. When \<open>L\<close> is at most
  10,000,000 the check passes and exactly the next \<open>L\<close> bytes are read and handed to the
  JSON decoder; a stream that ends before \<open>L\<close> bytes raises \<^verbatim>\<open>IncompleteReadError\<close>.
\<close>

theorem read_frame_length_check:
  assumes "4 \<le> length reader"
  shows "read_frame C reader =
     (let L = HEADER_unpack (take 4 reader) in
      if 10000000 < L then (Inl (ValueError ''invalid frame length''), drop 4 reader)
      else if L \<le> length reader - 4
        then (json_loads C (take L (drop 4 reader)), drop (4 + L) reader)
      else (Inl IncompleteReadError, []))"
  using assms
  by (simp add: read_frame_def readexactly_def HEADER_size_def Let_def add.commute)

theorem read_frame_length_check_witness:
  "read_frame compact_codec (CHR 0x01 # CHR 0x00 # CHR 0x00 # CHR 0x00 # ''abc'')
     = (Inl (ValueError ''invalid frame length''), ''abc'')
   \<and> read_frame compact_codec (CHR 0x00 # CHR 0x00 # CHR 0x00 # CHR 0x04 # ''nullxyz'')
     = (Inr JNull, ''xyz'')
   \<and> read_frame compact_codec (CHR 0x00 # CHR 0x00 # CHR 0x00 # CHR 0x04 # ''nu'')
     = (Inl IncompleteReadError, [])"
  using read_frame_length_check [of "CHR 0x01 # CHR 0x00 # CHR 0x00 # CHR 0x00 # ''abc''" compact_codec]
    read_frame_length_check [of "CHR 0x00 # CHR 0x00 # CHR 0x00 # CHR 0x04 # ''nullxyz''" compact_codec]
    read_frame_length_check [of "CHR 0x00 # CHR 0x00 # CHR 0x00 # CHR 0x04 # ''nu''" compact_codec]
  by (simp add: HEADER_unpack_def compact_codec_def loads_samples)




section \<open>Properties of the connection handler\<close>




section \<open>Properties of the loan math\<close>

text \<open>
  In exact arithmetic the amortization formula is the textbook payment, and that payment
  brings the balance to zero after \<open>n\<close> periods. The formula has no value when
  \<open>1 + r = 0\<close> or \<open>(1 + r)\<^sup>n = 1\<close>: the division raises.
\<close>

lemma balance_closed:
  assumes r: "r \<noteq> 0"
  shows "balance p r m k = p * (1 + r) ^ k - m * ((1 + r) ^ k - 1) / r"
proof (induction k)
  case 0
  then show ?case by simp
next
  case (Suc k)
  have "balance p r m (Suc k) = (p * (1 + r) ^ k - m * ((1 + r) ^ k - 1) / r) * (1 + r) - m"
    using Suc by simp
  also have "\<dots> = p * (1 + r) ^ Suc k - m * ((1 + r) ^ Suc k - 1) / r"
    using r by (simp add: field_simps)
  finally show ?case .
qed

lemma standard_payment_repays:
  assumes r: "r \<noteq> 0" and n: "(1 + r) ^ n \<noteq> 1"
  shows "balance p r (standard_payment p r n) n = 0"
  using r n by (simp add: balance_closed standard_payment_def field_simps)



lemma amortization_formula_exact_raises:
  assumes "1 + r = 0 \<or> (1 + r) ^ n = 1"
  shows "amortization_formula exact_prims p r (int n) = Inl ZeroDivisionError"
proof (cases "1 + r = 0")
  case True
  then show ?thesis
    by (simp add: amortization_formula_def py_truediv_def exc_bind_def exact_prims_def)
next
  case False
  with assms have d: "(1 + r) ^ n = 1" by simp
  have "(1 / (1 + r)) ^ n = 1" by (simp add: power_divide d)
  then show ?thesis
    using False
    by (simp add: amortization_formula_def py_truediv_def exc_bind_def exact_prims_def)
qed



end
